theory Spec2Isabelle
  imports Main "HOL-Library.Sublist"
begin

section \<open>Python values, strings and paths\<close>

text \<open>
  The two blocks of the plugin (\<^verbatim>\<open>create_md_custom.py\<close> and \<^verbatim>\<open>mm_pbsa.py\<close>) are
  sequential scripts over a file system, a subprocess and the host's remote object.
  They are embedded as functions from a world to an outcome; an outcome keeps the world
  reached when an exception leaves the function, since effects are not undone.

  Values of the host's variables that the code tests for truth are \<open>pyval\<close>s.
\<close>

datatype pyval = PNone | PInt int | PStr string

fun truthy :: "pyval \<Rightarrow> bool" where
  "truthy PNone = False"
| "truthy (PInt i) = (i \<noteq> 0)"
| "truthy (PStr s) = (s \<noteq> [])"

definition py_or :: "pyval \<Rightarrow> pyval \<Rightarrow> pyval" where
  \<comment> \<open>Python's \<^verbatim>\<open>a or b\<close>: \<^verbatim>\<open>a\<close> when it is truthy, otherwise \<^verbatim>\<open>b\<close>.\<close>
  "py_or a b = (if truthy a then a else b)"

definition digit_char :: "nat \<Rightarrow> char" where
  "digit_char d = ''0123456789'' ! d"

fun str_nat :: "nat \<Rightarrow> string" where
  "str_nat n = (if n < 10 then [digit_char n] else str_nat (n div 10) @ [digit_char (n mod 10)])"

declare str_nat.simps [simp del]

definition str_int :: "int \<Rightarrow> string" where
  "str_int i = (if i < 0 then CHR ''-'' # str_nat (nat (- i)) else str_nat (nat i))"

fun py_str :: "pyval \<Rightarrow> string" where
  "py_str PNone = ''None''"
| "py_str (PInt i) = str_int i"
| "py_str (PStr s) = s"

definition format_02d :: "nat \<Rightarrow> string" where
  \<comment> \<open>\<^verbatim>\<open>f"{n:02d}"\<close> for \<open>n \<ge> 0\<close>: at least two digits, padded with zeros on the left.\<close>
  "format_02d n = replicate (2 - length (str_nat n)) CHR ''0'' @ str_nat n"

fun join :: "string \<Rightarrow> string list \<Rightarrow> string" where
  "join sep [] = []"
| "join sep [x] = x"
| "join sep (x # y # ys) = x @ sep @ join sep (y # ys)"

definition isspace :: "char \<Rightarrow> bool" where
  \<comment> \<open>The ASCII characters that \<^verbatim>\<open>str.strip()\<close> removes.\<close>
  "isspace c = (c \<in> set [CHR 0x20, CHR 0x09, CHR 0x0A, CHR 0x0B, CHR 0x0C, CHR 0x0D,
                           CHR 0x1C, CHR 0x1D, CHR 0x1E, CHR 0x1F])"

definition strip :: "string \<Rightarrow> string" where
  "strip s = rev (dropWhile isspace (rev (dropWhile isspace s)))"

definition replace_spaces :: "string \<Rightarrow> string" where
  \<comment> \<open>\<^verbatim>\<open>s.replace(" ", "_")\<close>\<close>
  "replace_spaces s = map (\<lambda>c. if c = CHR '' '' then CHR ''_'' else c) s"

definition os_path_join :: "string \<Rightarrow> string \<Rightarrow> string" where
  \<comment> \<open>\<^verbatim>\<open>os.path.join(a, b)\<close> on POSIX.\<close>
  "os_path_join a b =
     (if b \<noteq> [] \<and> hd b = CHR ''/'' then b
      else if a = [] \<or> last a = CHR ''/'' then a @ b
      else a @ ''/'' @ b)"

text \<open>
  A \<^verbatim>\<open>pathlib.Path\<close> is the list of its components below the root; all paths are
  absolute. \<open>path_str\<close> is \<^verbatim>\<open>str(path)\<close>, \<open>name_of\<close> is \<^verbatim>\<open>path.name\<close>.
\<close>

type_synonym path = "string list"

definition path_str :: "path \<Rightarrow> string" where
  "path_str p = (if p = [] then ''/'' else concat (map (\<lambda>c. ''/'' @ c) p))"

definition name_of :: "path \<Rightarrow> string" where
  "name_of p = (if p = [] then [] else last p)"

section \<open>Errors, the file system and the world\<close>

text \<open>
  The exceptions of the code, with their messages. \<open>ValueError\<close>, \<open>RuntimeError\<close> and
  \<open>FileNotFoundError\<close> are raised by the blocks themselves; \<open>OSError\<close> stands for the
  failures of \<^verbatim>\<open>os\<close> and \<^verbatim>\<open>shutil\<close> calls (the offending path is kept), and
  \<open>BackendError\<close> for an exception raised inside a call of the host's remote object.
\<close>

datatype error =
    ValueError string
  | RuntimeError string
  | FileNotFoundError string
  | OSError string
  | BackendError string

text \<open>
  The file system maps a path to its entry. A link is a leaf: a path exists when it has an
  entry, so links whose target has disappeared are outside the model.
\<close>

datatype node = Dir | File string | Link path

type_synonym filesys = "path \<Rightarrow> node option"

definition makedirs :: "path \<Rightarrow> filesys \<Rightarrow> error + filesys" where
  \<comment> \<open>\<^verbatim>\<open>os.makedirs(p, exist_ok=True)\<close>: fails when \<open>p\<close> or an ancestor is not a directory.\<close>
  "makedirs p f =
     (if \<forall>q \<in> set (prefixes p). f q = None \<or> f q = Some Dir
      then Inr (\<lambda>q. if prefix q p \<and> f q = None then Some Dir else f q)
      else Inl (OSError (path_str p)))"

definition rmtree :: "path \<Rightarrow> filesys \<Rightarrow> error + filesys" where
  \<comment> \<open>\<^verbatim>\<open>shutil.rmtree(p)\<close>: removes a directory and all below it; fails on anything else.\<close>
  "rmtree p f =
     (if f p = Some Dir then Inr (\<lambda>q. if prefix p q then None else f q)
      else Inl (OSError (path_str p)))"

definition copy2 :: "path \<Rightarrow> path \<Rightarrow> filesys \<Rightarrow> error + filesys" where
  \<comment> \<open>\<^verbatim>\<open>shutil.copy2(src, dst)\<close>: the source is a regular file (a source that is a link is
      not followed here and counts as missing); a destination that is a directory receives
      the file under the source's name.\<close>
  "copy2 src dst f =
     (case f src of
        Some (File c) \<Rightarrow>
          (let tgt = (if f dst = Some Dir then dst @ [name_of src] else dst) in
           if tgt = src \<or> f tgt = Some Dir \<or> f (butlast tgt) \<noteq> Some Dir
           then Inl (OSError (path_str tgt))
           else Inr (f(tgt \<mapsto> File c)))
      | _ \<Rightarrow> Inl (OSError (path_str src)))"

text \<open>
  What the blocks do to the outside, in order: lines printed, subprocesses run (with their
  exit status and captured streams) and completed calls of the host's interface.
\<close>

datatype event =
    Print string
  | Spawned "string list" path int string string
  | LoadFile string string
  | Command string
  | SendData string string string
  | SubmitJob string string
  | GetData string string

record world =
  fs :: filesys
  trace :: "event list"
  extraData :: "string \<rightharpoonup> string list"
  outputs :: "string \<rightharpoonup> string"

datatype 'a outcome = Done 'a world | Raised error world

fun world_of :: "'a outcome \<Rightarrow> world" where
  "world_of (Done x w) = w"
| "world_of (Raised e w) = w"

fun succeeded :: "'a outcome \<Rightarrow> bool" where
  "succeeded (Done x w) = True"
| "succeeded (Raised e w) = False"

definition emit :: "event \<Rightarrow> world \<Rightarrow> world" where
  "emit e w = w\<lparr>trace := trace w @ [e]\<rparr>"

definition new_events :: "world \<Rightarrow> world \<Rightarrow> event list" where
  \<comment> \<open>The events added on the way from \<open>w\<close> to \<open>w'\<close>.\<close>
  "new_events w w' = drop (length (trace w)) (trace w')"

text \<open>
  The result of \<^verbatim>\<open>subprocess.Popen(...).communicate()\<close>: exit status, the two captured
  streams, and the file system the process leaves behind.
\<close>

record proc =
  returncode :: int
  stdout :: string
  stderr :: string
  fs_after :: filesys

text \<open>
  The process environment: the working directory, the behaviour of a subprocess given its
  command line, working directory and the file system it starts on, and whether
  \<^verbatim>\<open>os.symlink\<close> succeeds.
\<close>

record env =
  cwd :: path
  popen :: "string list \<Rightarrow> path \<Rightarrow> filesys \<Rightarrow> proc"
  symlink_ok :: "path \<Rightarrow> path \<Rightarrow> filesys \<Rightarrow> bool"

text \<open>
  \<^verbatim>\<open>block.remote\<close>. Each call sees the world it is made in and either raises (\<open>Inl\<close>, with
  a message) or returns. Only \<open>getData\<close> writes to the local file system.
\<close>

record remote =
  name :: string
  isLocal :: bool
  workDir :: string
  submitJob :: "string \<Rightarrow> world \<Rightarrow> string + string"
  command :: "string \<Rightarrow> world \<Rightarrow> string + unit"
  sendData :: "string \<Rightarrow> string \<Rightarrow> world \<Rightarrow> string + string"
  getData :: "string \<Rightarrow> path \<Rightarrow> world \<Rightarrow> string + filesys"

text \<open>
  The \<^verbatim>\<open>SlurmBlock\<close> handed to \<^verbatim>\<open>create_md_custom\<close>: inputs, variables (after the
  conversions of lines 96 to 101; \<open>temperature\<close> is the text of \<^verbatim>\<open>str(float(...))\<close>),
  the remote, the plugin directory and the flow's name.
\<close>

record slurm_block =
  parameters_file :: path
  coordinates_file :: path
  temperature :: string
  length_ns :: int
  replicas :: int
  last_residue :: pyval
  last_residue_interactive :: "(string \<rightharpoonup> pyval) option"
  remote :: remote
  pluginDir :: path
  flow_name :: string

text \<open>
  The file name endings the two inputs declare as allowed (lines 18 to 22 and 30), for the
  host to enforce.
\<close>

definition prmtop_allowed :: "string list" where
  "prmtop_allowed = [''.prmtop'', ''.top'', ''.parm7'']"

definition inpcrd_allowed :: "string list" where
  "inpcrd_allowed = [''.inpcrd'', ''.rst7'', ''.crd'', ''.rst'']"

definition has_extension :: "string list \<Rightarrow> string \<Rightarrow> bool" where
  "has_extension exts file_name \<longleftrightarrow> (\<exists>e \<in> set exts. suffix e file_name)"

section \<open>create\_md\_custom: run\_script\<close>

definition resolve_last_residue :: "slurm_block \<Rightarrow> pyval" where
  \<comment> \<open>Lines 103 to 105.\<close>
  "resolve_last_residue B =
     py_or (last_residue B)
       (case last_residue_interactive B of
          None \<Rightarrow> PNone
        | Some d \<Rightarrow> (case d ''residue'' of None \<Rightarrow> PNone | Some v \<Rightarrow> v))"

definition missing_residue_msg :: string where
  "missing_residue_msg = ''Last residue must be specified via index or interactive selection.''"

definition allowed_machines :: "string list" where
  "allowed_machines = [''csuc'', ''local'', ''picard'', ''slurm'']"

definition unsupported_machine_msg :: "string \<Rightarrow> string" where
  "unsupported_machine_msg machine =
     ''Machine '' @ [CHR 0x27] @ machine @ [CHR 0x27] @ '' is not supported. Allowed machines are: ''
     @ join '', '' allowed_machines
     @ ''. Please update the plugin and the create_md_custom script to support this machine.''"

definition parent_workdir :: "env \<Rightarrow> path" where
  "parent_workdir E = cwd E @ [''md_custom_workdir'']"

definition reset_workspace :: "env \<Rightarrow> world \<Rightarrow> unit outcome" where
  \<comment> \<open>Lines 124 to 132.\<close>
  "reset_workspace E w =
     (let parent = parent_workdir E in
      if fs w parent \<noteq> None then
        (let w1 = emit (Print (''WARNING: existing parent workdir found at '' @ path_str parent
                   @ ''; removing it now. All prior contents will be permanently deleted.'')) w in
         case rmtree parent (fs w1) of
           Inl e \<Rightarrow> Raised e w1
         | Inr f1 \<Rightarrow>
             (case makedirs parent f1 of
                Inl e \<Rightarrow> Raised e (w1\<lparr>fs := f1\<rparr>)
              | Inr f2 \<Rightarrow> Done () (w1\<lparr>fs := f2\<rparr>)))
      else
        (case makedirs parent (fs w) of
           Inl e \<Rightarrow> Raised e w
         | Inr f2 \<Rightarrow> Done () (w\<lparr>fs := f2\<rparr>)))"

definition script_location :: "slurm_block \<Rightarrow> path" where
  "script_location B =
     pluginDir B @ [''Include'', ''protocols'', ''MD'', ''cMD'', ''create_md_custom.sh'']"

definition replica_tag :: "nat \<Rightarrow> string" where
  "replica_tag replica = ''replica_'' @ format_02d replica"

definition workdir_of :: "env \<Rightarrow> nat \<Rightarrow> path" where
  "workdir_of E replica = parent_workdir E @ [replica_tag replica]"

definition generator_cmd :: "slurm_block \<Rightarrow> pyval \<Rightarrow> string list" where
  \<comment> \<open>Lines 158 to 173.\<close>
  "generator_cmd B last_residue_value =
     [''bash'', path_str (script_location B),
      ''-p'', name_of (parameters_file B),
      ''-c'', name_of (coordinates_file B),
      ''-r'', py_str last_residue_value,
      ''-t'', temperature B,
      ''-l'', str_int (length_ns B),
      ''-m'', name (remote B)]"

definition prepare_replica :: "env \<Rightarrow> slurm_block \<Rightarrow> nat \<Rightarrow> world \<Rightarrow> unit outcome" where
  \<comment> \<open>Lines 145 to 150: the replica's directory and the two copies.\<close>
  "prepare_replica E B replica w =
     (let workdir = workdir_of E replica in
      case makedirs workdir (fs w) of
        Inl e \<Rightarrow> Raised e w
      | Inr f1 \<Rightarrow>
          (case copy2 (parameters_file B) (workdir @ [name_of (parameters_file B)]) f1 of
             Inl e \<Rightarrow> Raised e (w\<lparr>fs := f1\<rparr>)
           | Inr f2 \<Rightarrow>
               (case copy2 (coordinates_file B) (workdir @ [name_of (coordinates_file B)]) f2 of
                  Inl e \<Rightarrow> Raised e (w\<lparr>fs := f2\<rparr>)
                | Inr f3 \<Rightarrow> Done () (w\<lparr>fs := f3\<rparr>))))"

definition executing_msg :: "slurm_block \<Rightarrow> pyval \<Rightarrow> nat \<Rightarrow> string" where
  \<comment> \<open>The text printed by lines 175 to 178.\<close>
  "executing_msg B last_residue_value replica =
     [CHR 0x0A] @ ''[Replica '' @ str_nat replica @ ''/'' @ str_int (replicas B) @ '']''
     @ [CHR 0x0A] @ ''Executing script: '' @ join '' '' (generator_cmd B last_residue_value)"

definition script_error_msg :: "nat \<Rightarrow> string \<Rightarrow> string" where
  \<comment> \<open>The text printed by line 189.\<close>
  "script_error_msg replica err =
     ''Replica '' @ str_nat replica @ '' error executing script: '' @ err"

definition script_failed_msg :: "nat \<Rightarrow> string \<Rightarrow> string" where
  \<comment> \<open>The message of the \<^verbatim>\<open>RuntimeError\<close> of lines 190 to 192.\<close>
  "script_failed_msg replica err =
     ''Replica '' @ str_nat replica @ '' script failed with error: '' @ err"

definition invoke_generator ::
  "env \<Rightarrow> slurm_block \<Rightarrow> pyval \<Rightarrow> nat \<Rightarrow> world \<Rightarrow> unit outcome" where
  \<comment> \<open>Lines 175 to 196.\<close>
  "invoke_generator E B last_residue_value replica w =
     (let workdir = workdir_of E replica;
          cmd = generator_cmd B last_residue_value;
          w1 = emit (Print (executing_msg B last_residue_value replica)) w;
          p = popen E cmd workdir (fs w1);
          w2 = emit (Spawned cmd workdir (returncode p) (stdout p) (stderr p))
                 (w1\<lparr>fs := fs_after p\<rparr>)
      in if returncode p \<noteq> 0 then
           Raised (RuntimeError (script_failed_msg replica (stderr p)))
             (emit (Print (script_error_msg replica (stderr p))) w2)
         else
           (let w3 = (if strip (stdout p) \<noteq> [] then
                        emit (Print (''Replica '' @ str_nat replica @ '' script stdout:''
                          @ [CHR 0x0A] @ stdout p)) w2
                      else w2);
                w4 = (if strip (stderr p) \<noteq> [] then
                        emit (Print (''Replica '' @ str_nat replica @ '' script stderr:''
                          @ [CHR 0x0A] @ stderr p)) w3
                      else w3)
            in Done () w4))"

definition report_folder :: "string \<Rightarrow> path \<Rightarrow> world \<Rightarrow> world" where
  \<comment> \<open>Lines 200 to 203.\<close>
  "report_folder tag folder_path w =
     (if fs w folder_path = Some Dir
      then emit (Print (''  '' @ tag @ ''/'' @ name_of folder_path @ ''/'')) w
      else emit (Print (''  '' @ tag @ ''/'' @ name_of folder_path @ ''/ (not found)'')) w)"

definition report_replica :: "env \<Rightarrow> nat \<Rightarrow> world \<Rightarrow> world" where
  \<comment> \<open>Lines 198 to 209.\<close>
  "report_replica E replica w =
     (let workdir = workdir_of E replica;
          w1 = report_folder (replica_tag replica) (workdir @ [''preprod'']) w;
          w2 = report_folder (replica_tag replica) (workdir @ [''prod'']) w1;
          out_slurm_file = workdir @ [''script.sh'']
      in if fs w2 out_slurm_file \<noteq> None
         then emit (LoadFile (path_str out_slurm_file) (replica_tag replica @ ''_script.sh'')) w2
         else w2)"

definition submit_replica ::
  "env \<Rightarrow> slurm_block \<Rightarrow> nat \<Rightarrow> string list \<Rightarrow> world \<Rightarrow> (string list) outcome" where
  \<comment> \<open>Lines 211 to 227; the result is the list \<^verbatim>\<open>remote_job_folders\<close>.\<close>
  "submit_replica E B replica remote_job_folders w =
     (let workdir = workdir_of E replica;
          out_slurm_file = workdir @ [''script.sh'']
      in if isLocal (remote B) then
           (case submitJob (remote B) (path_str out_slurm_file) w of
              Inl m \<Rightarrow> Raised (BackendError m) w
            | Inr job_id \<Rightarrow>
                Done remote_job_folders
                  (emit (Print (''Submitted job with ID: '' @ job_id))
                     (emit (SubmitJob (path_str out_slurm_file) job_id) w)))
         else
           (let remote_root = os_path_join (workDir (remote B)) (replace_spaces (flow_name B));
                w1 = emit (Print (''Creating remote root directory at '' @ remote_root @ ''...'')) w
            in case command (remote B) (''mkdir -p '' @ remote_root) w1 of
                 Inl m \<Rightarrow> Raised (BackendError m) w1
               | Inr _ \<Rightarrow>
                   (let w2 = emit (Print ''Transferring workdir to remote...'')
                               (emit (Command (''mkdir -p '' @ remote_root)) w1)
                    in case sendData (remote B) (path_str workdir) remote_root w2 of
                         Inl m \<Rightarrow> Raised (BackendError m) w2
                       | Inr remote_workdir \<Rightarrow>
                           (let remote_script_path = os_path_join remote_workdir ''script.sh'';
                                w3 = emit (Print ''Submitting job on remote...'')
                                       (emit (SendData (path_str workdir) remote_root remote_workdir) w2)
                            in case submitJob (remote B) remote_script_path w3 of
                                 Inl m \<Rightarrow> Raised (BackendError m) w3
                               | Inr job_id \<Rightarrow>
                                   Done (remote_job_folders @ [remote_workdir])
                                     (emit (Print (''Submitted job with ID: '' @ job_id))
                                        (emit (SubmitJob remote_script_path job_id) w3))))))"

definition replica_body ::
  "env \<Rightarrow> slurm_block \<Rightarrow> pyval \<Rightarrow> nat \<Rightarrow> string list \<Rightarrow> world \<Rightarrow> (string list) outcome" where
  \<comment> \<open>One pass of the loop of lines 144 to 227.\<close>
  "replica_body E B last_residue_value replica remote_job_folders w =
     (case prepare_replica E B replica w of
        Raised e w1 \<Rightarrow> Raised e w1
      | Done _ w1 \<Rightarrow>
          (case invoke_generator E B last_residue_value replica w1 of
             Raised e w2 \<Rightarrow> Raised e w2
           | Done _ w2 \<Rightarrow>
               submit_replica E B replica remote_job_folders (report_replica E replica w2)))"

fun replica_loop ::
  "env \<Rightarrow> slurm_block \<Rightarrow> pyval \<Rightarrow> nat list \<Rightarrow> string list \<Rightarrow> world \<Rightarrow> (string list) outcome" where
  "replica_loop E B lr [] remote_job_folders w = Done remote_job_folders w"
| "replica_loop E B lr (replica # rest) remote_job_folders w =
     (case replica_body E B lr replica remote_job_folders w of
        Raised e w1 \<Rightarrow> Raised e w1
      | Done remote_job_folders1 w1 \<Rightarrow> replica_loop E B lr rest remote_job_folders1 w1)"

definition run_script :: "env \<Rightarrow> slurm_block \<Rightarrow> world \<Rightarrow> unit outcome" where
  \<comment> \<open>\<^verbatim>\<open>run_script\<close> of \<^verbatim>\<open>create_md_custom.py\<close>; \<^verbatim>\<open>range(1, replicas_value + 1)\<close> is
      \<open>[1..<nat (replicas B) + 1]\<close>, empty when the count is not positive.\<close>
  "run_script E B w =
     (let last_residue_value = resolve_last_residue B in
      if \<not> truthy last_residue_value then Raised (ValueError missing_residue_msg) w
      else if name (remote B) \<notin> set allowed_machines
      then Raised (ValueError (unsupported_machine_msg (name (remote B)))) w
      else
        (case reset_workspace E w of
           Raised e w0 \<Rightarrow> Raised e w0
         | Done _ w0 \<Rightarrow>
             (case replica_loop E B last_residue_value [1..<nat (replicas B) + 1] [] w0 of
                Raised e w1 \<Rightarrow> Raised e w1
              | Done remote_job_folders w1 \<Rightarrow>
                  Done ()
                    (if remote_job_folders \<noteq> []
                     then w1\<lparr>extraData := (extraData w1)(''remote_job_folders'' \<mapsto> remote_job_folders)\<rparr>
                     else w1))))"

section \<open>create\_md\_custom: download\_data\<close>

definition recorded_handles :: "world \<Rightarrow> string list" where
  \<comment> \<open>\<^verbatim>\<open>block.extraData.get("remote_job_folders", [])\<close>\<close>
  "recorded_handles w =
     (case extraData w ''remote_job_folders'' of None \<Rightarrow> [] | Some l \<Rightarrow> l)"

fun download_subs ::
  "env \<Rightarrow> slurm_block \<Rightarrow> nat \<Rightarrow> string \<Rightarrow> string list \<Rightarrow> world \<Rightarrow> unit outcome" where
  \<comment> \<open>The inner loop of lines 256 to 260.\<close>
  "download_subs E B idx remote_folder [] w = Done () w"
| "download_subs E B idx remote_folder (sub # subs) w =
     (let remote_sub = os_path_join remote_folder sub;
          local_sub = workdir_of E idx @ [sub];
          w1 = emit (Print (''Downloading '' @ sub @ '' for '' @ replica_tag idx @ ''...'')) w
      in case getData (remote B) remote_sub local_sub w1 of
           Inl m \<Rightarrow> Raised (BackendError m) w1
         | Inr f \<Rightarrow>
             download_subs E B idx remote_folder subs
               (emit (GetData remote_sub (path_str local_sub)) (w1\<lparr>fs := f\<rparr>)))"

definition download_replica ::
  "env \<Rightarrow> slurm_block \<Rightarrow> nat \<Rightarrow> string \<Rightarrow> world \<Rightarrow> unit outcome" where
  \<comment> \<open>One pass of the loop of lines 252 to 260.\<close>
  "download_replica E B idx remote_folder w =
     (case makedirs (workdir_of E idx) (fs w) of
        Inl e \<Rightarrow> Raised e w
      | Inr f1 \<Rightarrow> download_subs E B idx remote_folder [''preprod'', ''prod''] (w\<lparr>fs := f1\<rparr>))"

fun download_handles ::
  "env \<Rightarrow> slurm_block \<Rightarrow> nat \<Rightarrow> string list \<Rightarrow> world \<Rightarrow> unit outcome" where
  \<comment> \<open>\<^verbatim>\<open>for idx, remote_folder in enumerate(remote_job_folders, start=1)\<close>\<close>
  "download_handles E B idx [] w = Done () w"
| "download_handles E B idx (remote_folder # rest) w =
     (case download_replica E B idx remote_folder w of
        Raised e w1 \<Rightarrow> Raised e w1
      | Done _ w1 \<Rightarrow> download_handles E B (Suc idx) rest w1)"

definition count_warning :: string where
  "count_warning =
     ''Warning: remote job folders count does not match replicas; attempting partial download.''"

definition download_replicas :: "env \<Rightarrow> slurm_block \<Rightarrow> world \<Rightarrow> unit outcome" where
  \<comment> \<open>Lines 245 to 260.\<close>
  "download_replicas E B w =
     (if \<not> isLocal (remote B) then
        (let remote_job_folders = recorded_handles w;
             w1 = (if int (length remote_job_folders) \<noteq> replicas B
                   then emit (Print count_warning) w else w)
         in download_handles E B 1 remote_job_folders w1)
      else Done () w)"

definition link_stage :: "env \<Rightarrow> nat \<Rightarrow> string \<Rightarrow> path \<Rightarrow> world \<Rightarrow> world" where
  \<comment> \<open>Lines 274 to 282: the link, or the file holding the source's path when
      \<^verbatim>\<open>os.symlink\<close> raises \<^verbatim>\<open>OSError\<close>.\<close>
  "link_stage E replica sub agg w =
     (let src = workdir_of E replica @ [sub] in
      if fs w src \<noteq> None then
        (let link_name = agg @ [replica_tag replica @ ''_'' @ sub] in
         if fs w link_name = None then
           (if symlink_ok E src link_name (fs w)
            then w\<lparr>fs := (fs w)(link_name \<mapsto> Link src)\<rparr>
            else w\<lparr>fs := (fs w)(link_name \<mapsto> File (path_str src))\<rparr>)
         else w)
      else w)"

definition aggregated_preprod :: "env \<Rightarrow> path" where
  "aggregated_preprod E = parent_workdir E @ [''preprod_replicas'']"

definition aggregated_prod :: "env \<Rightarrow> path" where
  "aggregated_prod E = parent_workdir E @ [''prod_replicas'']"

fun link_replicas :: "env \<Rightarrow> nat list \<Rightarrow> world \<Rightarrow> world" where
  \<comment> \<open>The loop of lines 267 to 282.\<close>
  "link_replicas E [] w = w"
| "link_replicas E (replica # rest) w =
     link_replicas E rest
       (link_stage E replica ''prod'' (aggregated_prod E)
          (link_stage E replica ''preprod'' (aggregated_preprod E) w))"

definition aggregate :: "env \<Rightarrow> slurm_block \<Rightarrow> world \<Rightarrow> unit outcome" where
  \<comment> \<open>Lines 262 to 285.\<close>
  "aggregate E B w =
     (case makedirs (aggregated_preprod E) (fs w) of
        Inl e \<Rightarrow> Raised e w
      | Inr f1 \<Rightarrow>
          (case makedirs (aggregated_prod E) f1 of
             Inl e \<Rightarrow> Raised e (w\<lparr>fs := f1\<rparr>)
           | Inr f2 \<Rightarrow>
               (let w1 = link_replicas E [1..<nat (replicas B) + 1] (w\<lparr>fs := f2\<rparr>)
                in Done ()
                     (w1\<lparr>outputs := (outputs w1)
                        (''preprod_folder'' \<mapsto> path_str (aggregated_preprod E),
                         ''prod_folder'' \<mapsto> path_str (aggregated_prod E))\<rparr>))))"

definition download_data :: "env \<Rightarrow> slurm_block \<Rightarrow> world \<Rightarrow> unit outcome" where
  "download_data E B w =
     (if fs w (parent_workdir E) = None
      then Raised (FileNotFoundError ''Parent workdir not found; nothing to download.'') w
      else
        (case download_replicas E B w of
           Raised e w1 \<Rightarrow> Raised e w1
         | Done _ w1 \<Rightarrow> aggregate E B w1))"

section \<open>mm\_pbsa: run\_script\<close>

text \<open>The \<^verbatim>\<open>PluginBlock\<close> handed to \<^verbatim>\<open>run_script\<close> of \<^verbatim>\<open>mm_pbsa.py\<close>.\<close>

record plugin_block =
  prmtop_file :: path
  trajectory_file :: path
  job_name :: string
  frames :: int
  solvent_mask :: string
  ligand_mask :: string
  output_prefix :: string
  pb_radius :: string
  cluster :: string
  run_now :: bool
  mm_pluginDir :: path

definition mm_setup_cmd :: "plugin_block \<Rightarrow> string list" where
  \<comment> \<open>Lines 126 to 157 of \<^verbatim>\<open>mm_pbsa.py\<close>.\<close>
  "mm_setup_cmd B =
     [''bash'',
      path_str (mm_pluginDir B @ [''Include'', ''protocols'', ''MM-PBSA'', ''mmpbsa_setup.sh'']),
      ''-j'', job_name B,
      ''-t'', path_str (trajectory_file B),
      ''-f'', str_int (frames B),
      ''-p'', path_str (prmtop_file B),
      ''-s'', solvent_mask B,
      ''-n'', ligand_mask B,
      ''-o'', output_prefix B,
      ''-r'', pb_radius B,
      ''-q'', cluster B]"

definition mm_set_outputs :: "plugin_block \<Rightarrow> world \<Rightarrow> world" where
  \<comment> \<open>Lines 190 and 191.\<close>
  "mm_set_outputs B w =
     w\<lparr>outputs := (outputs w)
        (''mmpbsa_input_file'' \<mapsto> path_str (mm_pluginDir B @ [''mmpbsa.in'']),
         ''submission_script'' \<mapsto> path_str (mm_pluginDir B @ [''script_mmpbsa.sh'']))\<rparr>"

definition mm_pbsa_run_script :: "env \<Rightarrow> plugin_block \<Rightarrow> world \<Rightarrow> unit outcome" where
  \<comment> \<open>\<^verbatim>\<open>run_script\<close> of \<^verbatim>\<open>mm_pbsa.py\<close>.\<close>
  "mm_pbsa_run_script E B w =
     (let workdir = mm_pluginDir B;
          cmd = mm_setup_cmd B;
          p = popen E cmd workdir (fs w);
          w1 = emit (Spawned cmd workdir (returncode p) (stdout p) (stderr p))
                 (w\<lparr>fs := fs_after p\<rparr>)
      in if returncode p \<noteq> 0 then
           Raised (RuntimeError (''MM-PBSA setup failed: '' @ stderr p))
             (emit (Print (''- Error executing setup script: '' @ stderr p)) w1)
         else
           (let w2 = emit (Print (''Setup stdout:'' @ [CHR 0x0A] @ stdout p @ [CHR 0x0A]
                       @ ''Setup stderr:'' @ [CHR 0x0A] @ stderr p)) w1;
                script_file = workdir @ [''script_mmpbsa.sh'']
            in if run_now B \<and> fs w2 script_file \<noteq> None then
                 (let run_cmd = [''bash'', path_str script_file];
                      q = popen E run_cmd workdir (fs w2);
                      w3 = emit (Spawned run_cmd workdir (returncode q) (stdout q) (stderr q))
                             (w2\<lparr>fs := fs_after q\<rparr>)
                  in if returncode q \<noteq> 0 then
                       Raised (RuntimeError (''MM-PBSA execution failed: '' @ stderr q))
                         (emit (Print (''- Error executing MM-PBSA script: '' @ stderr q)) w3)
                     else
                       Done ()
                         (mm_set_outputs B
                            (emit (Print (''Execution stdout:'' @ [CHR 0x0A] @ stdout q
                               @ [CHR 0x0A] @ ''Execution stderr:'' @ [CHR 0x0A] @ stderr q)) w3)))
               else Done () (mm_set_outputs B w2)))"

section \<open>Notions used in the statements\<close>

text \<open>Classes of events, and what an event contributes to the lists a statement compares.\<close>

fun is_spawn :: "event \<Rightarrow> bool" where
  "is_spawn (Spawned c d rc out err) = True"
| "is_spawn _ = False"














text \<open>The name of the aggregation entry of a replica and a stage (line 276).\<close>

definition link_name_of :: "path \<Rightarrow> nat \<Rightarrow> string \<Rightarrow> path" where
  "link_name_of agg replica sub = agg @ [replica_tag replica @ ''_'' @ sub]"










section \<open>Concrete batches\<close>

text \<open>
  A generator that writes \<^verbatim>\<open>script.sh\<close> and exits with status 0, one that fails in the
  second replica's directory and one that writes nothing; a local backend, a remote one and
  a remote one whose downloads raise; requests, and file systems holding the two input
  files, the workspace of an earlier run, and a replica with its \<^verbatim>\<open>preprod\<close> directory.
\<close>

definition ok_proc :: "path \<Rightarrow> filesys \<Rightarrow> proc" where
  "ok_proc d f = \<lparr>returncode = 0, stdout = [], stderr = [],
     fs_after = f(d @ [''script.sh''] \<mapsto> File ''sbatch'')\<rparr>"

definition ex_env :: env where
  "ex_env = \<lparr>cwd = [''run''], popen = (\<lambda>cmd d f. ok_proc d f), symlink_ok = (\<lambda>s l f. True)\<rparr>"


definition silent_env :: env where
  "silent_env = \<lparr>cwd = [''run''],
     popen = (\<lambda>cmd d f. \<lparr>returncode = 0, stdout = [], stderr = [], fs_after = f\<rparr>),
     symlink_ok = (\<lambda>s l f. True)\<rparr>"

definition ex_local :: remote where
  "ex_local = \<lparr>name = ''local'', isLocal = True, workDir = [],
     submitJob = (\<lambda>p w. Inr ''7''),
     command = (\<lambda>c w. Inr ()),
     sendData = (\<lambda>l r w. Inr (os_path_join r ''x'')),
     getData = (\<lambda>r l w. Inr (fs w))\<rparr>"



definition ex_block :: slurm_block where
  "ex_block = \<lparr>parameters_file = [''data'', ''a.prmtop''],
     coordinates_file = [''data'', ''a.inpcrd''],
     temperature = ''300.0'', length_ns = 200, replicas = 3,
     last_residue = PInt 150, last_residue_interactive = None,
     remote = ex_local, pluginDir = [''plugin''], flow_name = ''my flow''\<rparr>"


definition unsupported_block :: slurm_block where
  "unsupported_block = ex_block\<lparr>last_residue := PNone, remote := ex_local\<lparr>name := ''lumi''\<rparr>\<rparr>"



definition mm_block :: plugin_block where
  "mm_block = \<lparr>prmtop_file = [''data'', ''a.prmtop''], trajectory_file = [''data'', ''md.nc''],
     job_name = ''MMPBSA_job'', frames = 5000, solvent_mask = '':WAT:Na+:Cl-'',
     ligand_mask = '':LIG'', output_prefix = ''mmpbsa_output'', pb_radius = ''mbondi2'',
     cluster = ''local'', run_now = True, mm_pluginDir = [''plugin'']\<rparr>"

definition ex_fs :: filesys where
  "ex_fs = (\<lambda>p. None)([] \<mapsto> Dir, [''run''] \<mapsto> Dir, [''data''] \<mapsto> Dir,
     [''data'', ''a.prmtop''] \<mapsto> File ''TOP'', [''data'', ''a.inpcrd''] \<mapsto> File ''CRD'')"

definition ex_world :: world where
  "ex_world = \<lparr>fs = ex_fs, trace = [], extraData = Map.empty, outputs = Map.empty\<rparr>"

definition stale_world :: world where
  "stale_world = ex_world\<lparr>fs := ex_fs([''run'', ''md_custom_workdir''] \<mapsto> Dir,
     [''run'', ''md_custom_workdir'', ''old.log''] \<mapsto> File ''stale'')\<rparr>"


definition done_world :: world where
  "done_world = ex_world\<lparr>fs := ex_fs([''run'', ''md_custom_workdir''] \<mapsto> Dir,
     [''run'', ''md_custom_workdir'', ''replica_01''] \<mapsto> Dir,
     [''run'', ''md_custom_workdir'', ''replica_01'', ''preprod''] \<mapsto> Dir)\<rparr>"

section \<open>Traces and errors of the submission\<close>

lemma trace_emit [simp]: "trace (emit e w) = trace w @ [e]"
  by (simp add: emit_def)

lemma fs_emit [simp]: "fs (emit e w) = fs w"
  by (simp add: emit_def)

lemma extraData_emit [simp]: "extraData (emit e w) = extraData w"
  by (simp add: emit_def)

lemma outputs_emit [simp]: "outputs (emit e w) = outputs w"
  by (simp add: emit_def)

lemma new_events_append [simp]: "trace w' = trace w @ evs \<Longrightarrow> new_events w w' = evs"
  by (simp add: new_events_def)




















subsection \<open>Replica names are distinct\<close>










subsection \<open>Where the submission writes\<close>








lemma report_replica_fs [simp]: "fs (report_replica E j w) = fs w"
  by (simp add: report_replica_def report_folder_def Let_def)





lemma run_script_valid:
  assumes "truthy (resolve_last_residue B)" and "name (remote B) \<in> set allowed_machines"
  shows "run_script E B w =
     (case reset_workspace E w of
        Raised e w0 \<Rightarrow> Raised e w0
      | Done _ w0 \<Rightarrow>
          (case replica_loop E B (resolve_last_residue B) [1..<nat (replicas B) + 1] [] w0 of
             Raised e w1 \<Rightarrow> Raised e w1
           | Done remote_job_folders w1 \<Rightarrow>
               Done ()
                 (if remote_job_folders \<noteq> []
                  then w1\<lparr>extraData := (extraData w1)(''remote_job_folders'' \<mapsto> remote_job_folders)\<rparr>
                  else w1)))"
  using assms by (simp add: run_script_def Let_def)


subsection \<open>The concrete batch\<close>





section \<open>Claims about the submission\<close>




text \<open>
  C8. When neither the explicit last-residue index nor an interactive selection is
  supplied, the submission fails with the \<^verbatim>\<open>ValueError\<close> that asks for the last residue,
  in the world it was called in: nothing has been printed, written or run, so no subprocess
  was started.
\<close>

theorem missing_last_residue_fails_first:
  assumes "last_residue B = PNone" and "last_residue_interactive B = None"
  shows "run_script E B w = Raised (ValueError missing_residue_msg) w
         \<and> new_events w (world_of (run_script E B w)) = []"
  using assms by (simp add: run_script_def resolve_last_residue_def py_or_def new_events_def)

theorem missing_last_residue_fails_first_witness:
  "last_residue (ex_block\<lparr>last_residue := PNone\<rparr>) = PNone
   \<and> last_residue_interactive (ex_block\<lparr>last_residue := PNone\<rparr>) = None
   \<and> run_script ex_env (ex_block\<lparr>last_residue := PNone\<rparr>) ex_world
       = Raised (ValueError missing_residue_msg) ex_world"
  using missing_last_residue_fails_first [of "ex_block\<lparr>last_residue := PNone\<rparr>" ex_env ex_world]
  by (simp add: ex_block_def)





text \<open>
  C7, as amended. A request whose backend identifier is not one of \<^verbatim>\<open>csuc\<close>, \<^verbatim>\<open>local\<close>,
  \<^verbatim>\<open>picard\<close>, \<^verbatim>\<open>slurm\<close> always fails with a \<^verbatim>\<open>ValueError\<close> in the world it was
  called in (no directory is created, nothing is written). When its last residue
  resolves, the error is the one whose message names the identifier and the supported
  set; the check of the last residue comes first, so a request that lacks it as well
  fails with that check's message instead.
\<close>

theorem unsupported_backend_rejected:
  assumes "name (remote B) \<notin> set allowed_machines"
  shows "(\<exists>m. run_script E B w = Raised (ValueError m) w)
       \<and> (truthy (resolve_last_residue B) \<longrightarrow>
            run_script E B w = Raised (ValueError (unsupported_machine_msg (name (remote B)))) w)
       \<and> (\<exists>a b c. unsupported_machine_msg (name (remote B))
              = a @ name (remote B) @ b @ join '', '' allowed_machines @ c)
       \<and> set allowed_machines = {''local'', ''picard'', ''csuc'', ''slurm''}"
proof -
  have "unsupported_machine_msg (name (remote B))
      = (''Machine '' @ [CHR 0x27]) @ name (remote B)
        @ ([CHR 0x27] @ '' is not supported. Allowed machines are: '') @ join '', '' allowed_machines
        @ ''. Please update the plugin and the create_md_custom script to support this machine.''"
    by (simp add: unsupported_machine_msg_def)
  then have "\<exists>a b c. unsupported_machine_msg (name (remote B))
              = a @ name (remote B) @ b @ join '', '' allowed_machines @ c" by blast
  moreover have "set allowed_machines = {''local'', ''picard'', ''csuc'', ''slurm''}"
    by (auto simp: allowed_machines_def)
  ultimately show ?thesis using assms by (simp add: run_script_def Let_def)
qed

theorem unsupported_backend_rejected_witness:
  "name (remote (unsupported_block\<lparr>last_residue := PInt 150\<rparr>)) \<notin> set allowed_machines
   \<and> truthy (resolve_last_residue (unsupported_block\<lparr>last_residue := PInt 150\<rparr>))
   \<and> run_script ex_env (unsupported_block\<lparr>last_residue := PInt 150\<rparr>) ex_world
        = Raised (ValueError (unsupported_machine_msg ''lumi'')) ex_world"
proof -
  have h: "name (remote (unsupported_block\<lparr>last_residue := PInt 150\<rparr>)) \<notin> set allowed_machines"
    by (simp add: unsupported_block_def ex_block_def ex_local_def allowed_machines_def)
  have t: "truthy (resolve_last_residue (unsupported_block\<lparr>last_residue := PInt 150\<rparr>))"
    by (simp add: resolve_last_residue_def py_or_def)
  have n: "name (remote (unsupported_block\<lparr>last_residue := PInt 150\<rparr>)) = ''lumi''"
    by (simp add: unsupported_block_def ex_block_def ex_local_def)
  from unsupported_backend_rejected [OF h, of ex_env ex_world] t n h show ?thesis by simp
qed

text \<open>
  C7 as stated fails: with an unsupported backend and no last residue, the error is the
  one about the last residue, which does not name the backend.
\<close>

theorem unsupported_backend_counterexample:
  "name (remote unsupported_block) \<notin> set allowed_machines
   \<and> run_script ex_env unsupported_block ex_world = Raised (ValueError missing_residue_msg) ex_world
   \<and> missing_residue_msg \<noteq> unsupported_machine_msg (name (remote unsupported_block))"
  by (simp add: run_script_def resolve_last_residue_def py_or_def unsupported_block_def
      ex_block_def ex_local_def allowed_machines_def missing_residue_msg_def
      unsupported_machine_msg_def)


text \<open>
  C3 as stated fails: a submission that the backend check rejects leaves the workspace of
  the earlier run, files included, where it was.
\<close>

theorem stale_workspace_counterexample:
  "fs stale_world [''run'', ''md_custom_workdir'', ''old.log''] = Some (File ''stale'')
   \<and> fs (world_of (run_script ex_env (unsupported_block\<lparr>last_residue := PInt 150\<rparr>) stale_world))
        [''run'', ''md_custom_workdir'', ''old.log''] = Some (File ''stale'')"
  by (simp add: run_script_def resolve_last_residue_def py_or_def unsupported_block_def
      ex_block_def ex_local_def allowed_machines_def stale_world_def ex_world_def)








lemma reset_workspace_same:
  assumes "fs w (parent_workdir E) = Some Dir"
      and "\<forall>q. \<not> strict_prefix (parent_workdir E) q \<longrightarrow> f' q = fs w q"
  shows "reset_workspace E (w\<lparr>fs := f'\<rparr>) = reset_workspace E w"
proof -
  let ?P = "parent_workdir E"
  have P: "f' ?P = Some Dir" using assms by simp
  have "(\<lambda>q. if prefix ?P q then None else f' q) = (\<lambda>q. if prefix ?P q then None else fs w q)"
  proof
    fix q show "(if prefix ?P q then None else f' q) = (if prefix ?P q then None else fs w q)"
      using assms(2) by (auto simp: strict_prefix_def)
  qed
  then have r: "rmtree ?P f' = Inr (\<lambda>q. if prefix ?P q then None else fs w q)"
    "rmtree ?P (fs w) = Inr (\<lambda>q. if prefix ?P q then None else fs w q)"
    using P assms(1) by (simp_all add: rmtree_def)
  show ?thesis
  proof (cases "makedirs ?P (\<lambda>q. if prefix ?P q then None else fs w q)")
    case (Inl e)
    with r P assms(1) show ?thesis by (simp add: reset_workspace_def Let_def emit_def)
  next
    case (Inr f2)
    with r P assms(1) show ?thesis by (simp add: reset_workspace_def Let_def emit_def)
  qed
qed

lemma reset_workspace_empty:
  assumes "reset_workspace E w = Done u w0" and "fs w (parent_workdir E) = Some Dir"
  shows "fs w0 (parent_workdir E) = Some Dir
       \<and> (\<forall>q. strict_prefix (parent_workdir E) q \<longrightarrow> fs w0 q = None)"
proof -
  let ?P = "parent_workdir E"
  from assms obtain f1 where r: "rmtree ?P (fs w) = Inr f1" and m: "makedirs ?P f1 = Inr (fs w0)"
    by (auto simp: reset_workspace_def Let_def split: sum.splits)
  from r have f1: "f1 = (\<lambda>q. if prefix ?P q then None else fs w q)"
    by (auto simp: rmtree_def split: if_splits)
  from m have w0: "fs w0 = (\<lambda>q. if prefix q ?P \<and> f1 q = None then Some Dir else f1 q)"
    by (auto simp: makedirs_def split: if_splits)
  have "fs w0 ?P = Some Dir" by (simp add: w0 f1)
  moreover have "fs w0 q = None" if "strict_prefix ?P q" for q
  proof -
    from that have "prefix ?P q" "\<not> prefix q ?P" by (auto simp: strict_prefix_def)
    then show ?thesis by (simp add: w0 f1)
  qed
  ultimately show ?thesis by blast
qed

text \<open>
  C3, as amended. For a submission that passes the two checks (last residue resolved,
  backend supported), against a workspace root that exists as a directory, the outcome
  does not depend on what the root held before: two worlds that differ only strictly below
  the root give the same outcome, and right after the reset the root is an empty directory.
\<close>

theorem workspace_reset_clean_slate:
  assumes "truthy (resolve_last_residue B)" and "name (remote B) \<in> set allowed_machines"
      and "fs w (parent_workdir E) = Some Dir"
      and "\<forall>q. \<not> strict_prefix (parent_workdir E) q \<longrightarrow> f' q = fs w q"
  shows "run_script E B (w\<lparr>fs := f'\<rparr>) = run_script E B w
       \<and> (\<forall>w0. reset_workspace E w = Done () w0 \<longrightarrow>
             fs w0 (parent_workdir E) = Some Dir
           \<and> (\<forall>q. strict_prefix (parent_workdir E) q \<longrightarrow> fs w0 q = None))"
proof -
  have "run_script E B (w\<lparr>fs := f'\<rparr>) = run_script E B w"
    using assms(1,2) reset_workspace_same [OF assms(3,4)]
    by (simp add: run_script_valid)
  then show ?thesis using reset_workspace_empty [OF _ assms(3)] by blast
qed

theorem workspace_reset_clean_slate_witness:
  "truthy (resolve_last_residue ex_block) \<and> name (remote ex_block) \<in> set allowed_machines
   \<and> fs stale_world (parent_workdir ex_env) = Some Dir
   \<and> ex_fs [''run'', ''md_custom_workdir'', ''old.log''] = None
   \<and> fs stale_world [''run'', ''md_custom_workdir'', ''old.log''] = Some (File ''stale'')
   \<and> run_script ex_env ex_block (stale_world\<lparr>fs := ex_fs([''run'', ''md_custom_workdir''] \<mapsto> Dir)\<rparr>)
       = run_script ex_env ex_block stale_world"
proof -
  have 1: "truthy (resolve_last_residue ex_block)"
    by (simp add: resolve_last_residue_def py_or_def ex_block_def)
  have 2: "name (remote ex_block) \<in> set allowed_machines"
    by (simp add: ex_block_def ex_local_def allowed_machines_def)
  have 3: "fs stale_world (parent_workdir ex_env) = Some Dir"
    by (simp add: stale_world_def parent_workdir_def ex_env_def)
  have 4: "\<forall>q. \<not> strict_prefix (parent_workdir ex_env) q \<longrightarrow>
             (ex_fs([''run'', ''md_custom_workdir''] \<mapsto> Dir)) q = fs stale_world q"
    by (auto simp: stale_world_def parent_workdir_def ex_env_def strict_prefix_def prefix_def)
  have 5: "ex_fs [''run'', ''md_custom_workdir'', ''old.log''] = None"
    "fs stale_world [''run'', ''md_custom_workdir'', ''old.log''] = Some (File ''stale'')"
    by (simp_all add: ex_fs_def stale_world_def)
  have 6: "run_script ex_env ex_block
             (stale_world\<lparr>fs := ex_fs([''run'', ''md_custom_workdir''] \<mapsto> Dir)\<rparr>)
           = run_script ex_env ex_block stale_world"
    using workspace_reset_clean_slate [OF 1 2 3 4] by (rule conjunct1)
  from 1 2 3 5 6 show ?thesis by (intro conjI)
qed

subsection \<open>Job identifiers and handles\<close>




lemma report_replica_extraData [simp]: "extraData (report_replica E j w) = extraData w"
  by (simp add: report_replica_def report_folder_def Let_def)

lemma submit_replica_extraData [simp]:
  "extraData (world_of (submit_replica E B j hs w)) = extraData w"
  by (simp add: submit_replica_def Let_def split: sum.splits)











subsection \<open>The workspace after a successful submission\<close>

text \<open>
  Input files that carry the declared endings have different names: no ending allowed for
  the topology ends a name that ends with one allowed for the coordinates.
\<close>

lemma declared_extensions_differ:
  assumes "has_extension prmtop_allowed (name_of (parameters_file B))"
      and "has_extension inpcrd_allowed (name_of (coordinates_file B))"
  shows "name_of (parameters_file B) \<noteq> name_of (coordinates_file B)"
proof
  assume eq: "name_of (parameters_file B) = name_of (coordinates_file B)"
  from assms(1) obtain e1 where e1: "e1 \<in> set prmtop_allowed"
    "suffix e1 (name_of (coordinates_file B))"
    unfolding has_extension_def eq by blast
  from assms(2) obtain e2 where e2: "e2 \<in> set inpcrd_allowed"
    "suffix e2 (name_of (coordinates_file B))"
    unfolding has_extension_def by blast
  from e1(2) e2(2) have "suffix e1 e2 \<or> suffix e2 e1" by (rule suffix_same_cases)
  with e1(1) e2(1) show False
    by (auto simp: prmtop_allowed_def inpcrd_allowed_def suffix_to_prefix)
qed




lemma not_below_parent:
  assumes "\<not> prefix P p"
  shows "p \<noteq> P @ xs"
  using assms by auto




















section \<open>Claims about the collection\<close>




lemma link_stage_trace [simp]: "trace (link_stage E k sub agg w) = trace w"
  by (simp add: link_stage_def Let_def)

lemma link_replicas_trace [simp]: "trace (link_replicas E ks w) = trace w"
  by (induction ks arbitrary: w) simp_all






lemma makedirs_result:
  assumes "makedirs p f = Inr f'"
  shows "\<forall>q. prefix q p \<longrightarrow> f' q = Some Dir" and "\<forall>q. f q \<noteq> None \<longrightarrow> f' q = f q"
    and "\<forall>q. \<not> prefix q p \<longrightarrow> f' q = f q"
proof -
  from assms have ok: "\<forall>q \<in> set (prefixes p). f q = None \<or> f q = Some Dir"
    and f': "f' = (\<lambda>q. if prefix q p \<and> f q = None then Some Dir else f q)"
    by (auto simp: makedirs_def split: if_splits)
  show "\<forall>q. prefix q p \<longrightarrow> f' q = Some Dir"
  proof (intro allI impI)
    fix q assume "prefix q p"
    then have "q \<in> set (prefixes p)" by (simp add: in_set_prefixes)
    with ok have "f q = None \<or> f q = Some Dir" by blast
    with \<open>prefix q p\<close> show "f' q = Some Dir" by (auto simp: f')
  qed
  show "\<forall>q. f q \<noteq> None \<longrightarrow> f' q = f q" by (simp add: f')
  show "\<forall>q. \<not> prefix q p \<longrightarrow> f' q = f q" by (simp add: f')
qed

lemma makedirs_noop:
  assumes "\<forall>q. prefix q p \<longrightarrow> f q = Some Dir"
  shows "makedirs p f = Inr f"
proof -
  have "(\<lambda>q. if prefix q p \<and> f q = None then Some Dir else f q) = f"
    using assms by auto
  moreover have "\<forall>q \<in> set (prefixes p). f q = None \<or> f q = Some Dir"
    using assms by (simp add: in_set_prefixes)
  ultimately show ?thesis by (simp add: makedirs_def)
qed

lemma link_stage_keeps: "fs w p \<noteq> None \<Longrightarrow> fs (link_stage E k sub agg w) p = fs w p"
  by (auto simp: link_stage_def Let_def)

lemma link_stage_other:
  "p \<noteq> link_name_of agg k sub \<Longrightarrow> fs (link_stage E k sub agg w) p = fs w p"
  by (auto simp: link_stage_def Let_def link_name_of_def)

lemma link_stage_links:
  "fs w (workdir_of E k @ [sub]) \<noteq> None
     \<Longrightarrow> fs (link_stage E k sub agg w) (link_name_of agg k sub) \<noteq> None"
  by (auto simp: link_stage_def Let_def link_name_of_def)

lemma link_stage_noop:
  "fs w (workdir_of E k @ [sub]) \<noteq> None \<longrightarrow> fs w (link_name_of agg k sub) \<noteq> None
     \<Longrightarrow> link_stage E k sub agg w = w"
  by (auto simp: link_stage_def Let_def link_name_of_def)

lemma link_stage_rest [simp]:
  "outputs (link_stage E k sub agg w) = outputs w"
  "extraData (link_stage E k sub agg w) = extraData w"
  by (simp_all add: link_stage_def Let_def)

lemma src_not_link:
  "workdir_of E j @ [s] \<noteq> link_name_of (aggregated_preprod E) k sub"
  "workdir_of E j @ [s] \<noteq> link_name_of (aggregated_prod E) k sub"
  by (simp_all add: workdir_of_def link_name_of_def aggregated_preprod_def aggregated_prod_def
      replica_tag_def)

lemma link_replicas_keeps: "fs w p \<noteq> None \<Longrightarrow> fs (link_replicas E ks w) p = fs w p"
proof (induction ks arbitrary: w)
  case Nil
  then show ?case by simp
next
  case (Cons k ks)
  let ?w1 = "link_stage E k ''preprod'' (aggregated_preprod E) w"
  let ?w2 = "link_stage E k ''prod'' (aggregated_prod E) ?w1"
  from Cons.prems have 1: "fs ?w1 p = fs w p" by (rule link_stage_keeps)
  with Cons.prems have 2: "fs ?w2 p = fs w p" by (simp add: link_stage_keeps)
  with Cons.prems have "fs ?w2 p \<noteq> None" by simp
  from Cons.IH [OF this] 2 show ?case by simp
qed

lemma link_replicas_src:
  "fs (link_replicas E ks w) (workdir_of E j @ [s]) = fs w (workdir_of E j @ [s])"
proof (induction ks arbitrary: w)
  case Nil
  then show ?case by simp
next
  case (Cons k ks)
  show ?case by (simp add: Cons.IH link_stage_other src_not_link)
qed

lemma link_replicas_rest [simp]:
  "outputs (link_replicas E ks w) = outputs w"
  "extraData (link_replicas E ks w) = extraData w"
  by (induction ks arbitrary: w) simp_all

lemma link_replicas_links:
  assumes "k \<in> set ks"
  shows "(fs w (workdir_of E k @ [''preprod'']) \<noteq> None \<longrightarrow>
            fs (link_replicas E ks w) (link_name_of (aggregated_preprod E) k ''preprod'') \<noteq> None)
       \<and> (fs w (workdir_of E k @ [''prod'']) \<noteq> None \<longrightarrow>
            fs (link_replicas E ks w) (link_name_of (aggregated_prod E) k ''prod'') \<noteq> None)"
  using assms
proof (induction ks arbitrary: w)
  case Nil
  then show ?case by simp
next
  case (Cons j ks)
  let ?w1 = "link_stage E j ''preprod'' (aggregated_preprod E) w"
  let ?w2 = "link_stage E j ''prod'' (aggregated_prod E) ?w1"
  have src: "fs ?w2 (workdir_of E k @ [s]) = fs w (workdir_of E k @ [s])" for s
    by (simp add: link_stage_other src_not_link)
  show ?case
  proof (cases "k = j")
    case True
    have a: "fs w (workdir_of E k @ [''preprod'']) \<noteq> None \<longrightarrow>
        fs ?w2 (link_name_of (aggregated_preprod E) k ''preprod'') \<noteq> None"
    proof
      assume "fs w (workdir_of E k @ [''preprod'']) \<noteq> None"
      with True have "fs ?w1 (link_name_of (aggregated_preprod E) k ''preprod'') \<noteq> None"
        by (simp add: link_stage_links)
      then show "fs ?w2 (link_name_of (aggregated_preprod E) k ''preprod'') \<noteq> None"
        by (simp add: link_stage_keeps)
    qed
    have b: "fs w (workdir_of E k @ [''prod'']) \<noteq> None \<longrightarrow>
        fs ?w2 (link_name_of (aggregated_prod E) k ''prod'') \<noteq> None"
    proof
      assume "fs w (workdir_of E k @ [''prod'']) \<noteq> None"
      then have "fs ?w1 (workdir_of E k @ [''prod'']) \<noteq> None"
        by (simp add: link_stage_keeps)
      with True show "fs ?w2 (link_name_of (aggregated_prod E) k ''prod'') \<noteq> None"
        by (simp add: link_stage_links)
    qed
    from a b show ?thesis by (auto simp: link_replicas_keeps)
  next
    case False
    with Cons.prems have "k \<in> set ks" by simp
    from Cons.IH [OF this, of ?w2] src show ?thesis by simp
  qed
qed

lemma link_replicas_noop:
  assumes "\<forall>k \<in> set ks.
      (fs w (workdir_of E k @ [''preprod'']) \<noteq> None \<longrightarrow>
         fs w (link_name_of (aggregated_preprod E) k ''preprod'') \<noteq> None)
    \<and> (fs w (workdir_of E k @ [''prod'']) \<noteq> None \<longrightarrow>
         fs w (link_name_of (aggregated_prod E) k ''prod'') \<noteq> None)"
  shows "link_replicas E ks w = w"
  using assms by (induction ks) (simp_all add: link_stage_noop)

lemma aggregate_Done:
  assumes "aggregate E B w = Done u w1"
  shows "\<forall>p. fs w p \<noteq> None \<longrightarrow> fs w1 p = fs w p"
    and "\<forall>q. prefix q (aggregated_preprod E) \<or> prefix q (aggregated_prod E)
            \<longrightarrow> fs w1 q = Some Dir"
    and "\<forall>k \<in> {1..nat (replicas B)}.
      (fs w1 (workdir_of E k @ [''preprod'']) \<noteq> None \<longrightarrow>
         fs w1 (link_name_of (aggregated_preprod E) k ''preprod'') \<noteq> None)
    \<and> (fs w1 (workdir_of E k @ [''prod'']) \<noteq> None \<longrightarrow>
         fs w1 (link_name_of (aggregated_prod E) k ''prod'') \<noteq> None)"
    and "outputs w1 ''preprod_folder'' = Some (path_str (aggregated_preprod E))"
    and "outputs w1 ''prod_folder'' = Some (path_str (aggregated_prod E))"
proof -
  define ks where "ks = [1..<nat (replicas B) + 1]"
  have set_ks: "set ks = {1..nat (replicas B)}" by (auto simp: ks_def)
  from assms obtain f1 f2 where
    m1: "makedirs (aggregated_preprod E) (fs w) = Inr f1" and
    m2: "makedirs (aggregated_prod E) f1 = Inr f2" and
    w1: "w1 = (link_replicas E ks (w\<lparr>fs := f2\<rparr>))\<lparr>outputs :=
           (outputs (link_replicas E ks (w\<lparr>fs := f2\<rparr>)))
             (''preprod_folder'' \<mapsto> path_str (aggregated_preprod E),
              ''prod_folder'' \<mapsto> path_str (aggregated_prod E))\<rparr>"
    unfolding ks_def by (auto simp: aggregate_def Let_def split: sum.splits)
  let ?w2 = "link_replicas E ks (w\<lparr>fs := f2\<rparr>)"
  have fw1: "fs w1 = fs ?w2" by (simp add: w1)
  note r1 = makedirs_result [OF m1] and r2 = makedirs_result [OF m2]
  have keep2: "fs ?w2 p = f2 p" if "f2 p \<noteq> None" for p
    using link_replicas_keeps [of "w\<lparr>fs := f2\<rparr>" p E ks] that by simp
  show "\<forall>p. fs w p \<noteq> None \<longrightarrow> fs w1 p = fs w p"
  proof (intro allI impI)
    fix p assume p: "fs w p \<noteq> None"
    with r1(2) have "f1 p = fs w p" by simp
    with p r2(2) have "f2 p = fs w p" by simp
    with p keep2 [of p] show "fs w1 p = fs w p" by (simp add: fw1)
  qed
  show "\<forall>q. prefix q (aggregated_preprod E) \<or> prefix q (aggregated_prod E)
            \<longrightarrow> fs w1 q = Some Dir"
  proof (intro allI impI)
    fix q assume "prefix q (aggregated_preprod E) \<or> prefix q (aggregated_prod E)"
    then have "f2 q = Some Dir"
    proof
      assume "prefix q (aggregated_preprod E)"
      with r1(1) have "f1 q = Some Dir" by simp
      with r2(2) show ?thesis by simp
    next
      assume "prefix q (aggregated_prod E)"
      with r2(1) show ?thesis by simp
    qed
    with keep2 [of q] show "fs w1 q = Some Dir" by (simp add: fw1)
  qed
  show "\<forall>k \<in> {1..nat (replicas B)}.
      (fs w1 (workdir_of E k @ [''preprod'']) \<noteq> None \<longrightarrow>
         fs w1 (link_name_of (aggregated_preprod E) k ''preprod'') \<noteq> None)
    \<and> (fs w1 (workdir_of E k @ [''prod'']) \<noteq> None \<longrightarrow>
         fs w1 (link_name_of (aggregated_prod E) k ''prod'') \<noteq> None)"
  proof
    fix k assume "k \<in> {1..nat (replicas B)}"
    then have k: "k \<in> set ks" by (simp add: set_ks)
    have src: "fs ?w2 (workdir_of E k @ [s]) = fs (w\<lparr>fs := f2\<rparr>) (workdir_of E k @ [s])" for s
      by (rule link_replicas_src)
    from link_replicas_links [OF k, of "w\<lparr>fs := f2\<rparr>" E]
    show "(fs w1 (workdir_of E k @ [''preprod'']) \<noteq> None \<longrightarrow>
         fs w1 (link_name_of (aggregated_preprod E) k ''preprod'') \<noteq> None)
    \<and> (fs w1 (workdir_of E k @ [''prod'']) \<noteq> None \<longrightarrow>
         fs w1 (link_name_of (aggregated_prod E) k ''prod'') \<noteq> None)"
      unfolding fw1 src by blast
  qed
  show "outputs w1 ''preprod_folder'' = Some (path_str (aggregated_preprod E))"
    "outputs w1 ''prod_folder'' = Some (path_str (aggregated_prod E))"
    by (simp_all add: w1)
qed

lemma aggregate_fixpoint:
  assumes dirs: "\<forall>q. prefix q (aggregated_preprod E) \<or> prefix q (aggregated_prod E)
            \<longrightarrow> fs w q = Some Dir"
      and links: "\<forall>k \<in> {1..nat (replicas B)}.
      (fs w (workdir_of E k @ [''preprod'']) \<noteq> None \<longrightarrow>
         fs w (link_name_of (aggregated_preprod E) k ''preprod'') \<noteq> None)
    \<and> (fs w (workdir_of E k @ [''prod'']) \<noteq> None \<longrightarrow>
         fs w (link_name_of (aggregated_prod E) k ''prod'') \<noteq> None)"
      and outs: "outputs w ''preprod_folder'' = Some (path_str (aggregated_preprod E))"
                "outputs w ''prod_folder'' = Some (path_str (aggregated_prod E))"
  shows "aggregate E B w = Done () w"
proof -
  define ks where "ks = [1..<nat (replicas B) + 1]"
  have set_ks: "set ks = {1..nat (replicas B)}" by (auto simp: ks_def)
  have m1: "makedirs (aggregated_preprod E) (fs w) = Inr (fs w)"
    using dirs by (intro makedirs_noop) simp
  have m2: "makedirs (aggregated_prod E) (fs w) = Inr (fs w)"
    using dirs by (intro makedirs_noop) simp
  have l: "link_replicas E ks w = w"
    using links unfolding set_ks [symmetric] by (rule link_replicas_noop)
  have o: "(outputs w)(''preprod_folder'' \<mapsto> path_str (aggregated_preprod E),
              ''prod_folder'' \<mapsto> path_str (aggregated_prod E)) = outputs w"
    using outs by (simp add: map_upd_triv)
  have "aggregate E B w = Done () ((link_replicas E ks (w\<lparr>fs := fs w\<rparr>))\<lparr>outputs :=
           (outputs (link_replicas E ks (w\<lparr>fs := fs w\<rparr>)))
             (''preprod_folder'' \<mapsto> path_str (aggregated_preprod E),
              ''prod_folder'' \<mapsto> path_str (aggregated_prod E))\<rparr>)"
    unfolding ks_def using m1 m2 by (simp add: aggregate_def Let_def)
  also have "\<dots> = Done () w" using l o by simp
  finally show ?thesis .
qed

lemma download_subs_outputs [simp]:
  "outputs (world_of (download_subs E B idx h subs w)) = outputs w"
  by (induction subs arbitrary: w) (simp_all add: Let_def split: sum.splits)

lemma download_replica_outputs [simp]:
  "outputs (world_of (download_replica E B idx h w)) = outputs w"
  by (simp add: download_replica_def del: download_subs.simps split: sum.splits)

lemma download_handles_outputs [simp]:
  "outputs (world_of (download_handles E B idx hs w)) = outputs w"
proof (induction hs arbitrary: idx w)
  case Nil
  then show ?case by simp
next
  case (Cons h hs)
  show ?case
  proof (cases "download_replica E B idx h w")
    case (Raised e w1)
    with download_replica_outputs [of E B idx h w] show ?thesis by simp
  next
    case (Done u w1)
    with download_replica_outputs [of E B idx h w] Cons.IH [of "Suc idx" w1] show ?thesis
      by simp
  qed
qed

lemma download_replicas_outputs [simp]:
  "outputs (world_of (download_replicas E B w)) = outputs w"
  by (simp add: download_replicas_def Let_def)

text \<open>
  C5. The aggregation only adds entries: whatever exists after the download phase is still
  there, unchanged, when \<^verbatim>\<open>download_data\<close> returns, so a link that exists is never
  overwritten. After a successful call, a second call whose download phase succeeds and leaves
  the local tree as the first call left it returns normally and changes nothing further: no
  link is added, renamed or replaced. With a local backend there is no download phase, and
  the second call returns the very world it was given.
\<close>

theorem collect_batch_idempotent:
  assumes first: "download_data E B w = Done () w1"
      and again: "download_replicas E B w1 = Done () w2"
      and same: "fs w2 = fs w1"
  shows "download_data E B w1 = Done () w2
       \<and> (isLocal (remote B) \<longrightarrow> w2 = w1)
       \<and> (\<forall>w0 p. download_replicas E B w = Done () w0 \<longrightarrow> fs w0 p \<noteq> None
             \<longrightarrow> fs w1 p = fs w0 p)"
proof -
  from first have ex: "fs w (parent_workdir E) \<noteq> None"
    by (auto simp: download_data_def split: if_splits)
  with first obtain w0 where d0: "download_replicas E B w = Done () w0"
    and a0: "aggregate E B w0 = Done () w1"
    by (cases "download_replicas E B w") (auto simp: download_data_def)
  note ag = aggregate_Done [OF a0]
  have "prefix (parent_workdir E) (aggregated_preprod E)"
    by (simp add: aggregated_preprod_def)
  with ag(2) have root: "fs w1 (parent_workdir E) = Some Dir" by blast
  have "outputs w2 = outputs w1"
    using download_replicas_outputs [of E B w1] again by simp
  with ag(2-5) same have "aggregate E B w2 = Done () w2"
    by (intro aggregate_fixpoint) simp_all
  with root again have 1: "download_data E B w1 = Done () w2"
    by (simp add: download_data_def)
  have 2: "isLocal (remote B) \<longrightarrow> w2 = w1"
    using again by (auto simp: download_replicas_def)
  have 3: "\<forall>w0 p. download_replicas E B w = Done () w0 \<longrightarrow> fs w0 p \<noteq> None
             \<longrightarrow> fs w1 p = fs w0 p"
    using d0 ag(1) by simp
  from 1 2 3 show ?thesis by blast
qed

theorem collect_batch_idempotent_witness:
  "download_data ex_env (ex_block\<lparr>replicas := 1\<rparr>) done_world
     = Done () (world_of (download_data ex_env (ex_block\<lparr>replicas := 1\<rparr>) done_world))
   \<and> isLocal (remote (ex_block\<lparr>replicas := 1\<rparr>))
   \<and> fs (world_of (download_data ex_env (ex_block\<lparr>replicas := 1\<rparr>) done_world))
        [''run'', ''md_custom_workdir'', ''preprod_replicas'', ''replica_01_preprod'']
       = Some (Link [''run'', ''md_custom_workdir'', ''replica_01'', ''preprod''])
   \<and> download_data ex_env (ex_block\<lparr>replicas := 1\<rparr>)
        (world_of (download_data ex_env (ex_block\<lparr>replicas := 1\<rparr>) done_world))
     = Done () (world_of (download_data ex_env (ex_block\<lparr>replicas := 1\<rparr>) done_world))"
proof -
  let ?B = "ex_block\<lparr>replicas := 1\<rparr>"
  let ?w1 = "world_of (download_data ex_env ?B done_world)"
  have "succeeded (download_data ex_env ?B done_world)" by code_simp
  then have 1: "download_data ex_env ?B done_world = Done () ?w1"
    by (cases "download_data ex_env ?B done_world") simp_all
  have loc: "isLocal (remote ?B)" by (simp add: ex_block_def ex_local_def)
  then have 2: "download_replicas ex_env ?B ?w1 = Done () ?w1"
    by (simp add: download_replicas_def)
  have 3: "fs ?w1 = fs ?w1" ..
  have 4: "fs ?w1 [''run'', ''md_custom_workdir'', ''preprod_replicas'', ''replica_01_preprod'']
       = Some (Link [''run'', ''md_custom_workdir'', ''replica_01'', ''preprod''])"
    by code_simp
  have 5: "download_data ex_env ?B ?w1 = Done () ?w1"
    using collect_batch_idempotent [OF 1 2 3] by (rule conjunct1)
  from 1 loc 4 5 show ?thesis by (intro conjI)
qed

section \<open>Claims about the MM-PBSA block\<close>

text \<open>
  C10. When the setup script succeeds and \<^verbatim>\<open>script_mmpbsa.sh\<close> does not exist afterwards,
  the block returns normally whatever \<^verbatim>\<open>run_now\<close> is: the setup is the only subprocess,
  nothing but its output is printed, and the two outputs are set to the paths of
  \<^verbatim>\<open>mmpbsa.in\<close> and \<^verbatim>\<open>script_mmpbsa.sh\<close> although the script does not exist.
\<close>

theorem mm_pbsa_skips_missing_script:
  assumes "returncode (popen E (mm_setup_cmd B) (mm_pluginDir B) (fs w)) = 0"
      and "fs_after (popen E (mm_setup_cmd B) (mm_pluginDir B) (fs w))
             (mm_pluginDir B @ [''script_mmpbsa.sh'']) = None"
  shows "\<exists>w' out err.
           mm_pbsa_run_script E B w = Done () w'
         \<and> new_events w w' = [Spawned (mm_setup_cmd B) (mm_pluginDir B) 0 out err,
              Print (''Setup stdout:'' @ [CHR 0x0A] @ out @ [CHR 0x0A]
                       @ ''Setup stderr:'' @ [CHR 0x0A] @ err)]
         \<and> outputs w' ''mmpbsa_input_file'' = Some (path_str (mm_pluginDir B @ [''mmpbsa.in'']))
         \<and> outputs w' ''submission_script''
              = Some (path_str (mm_pluginDir B @ [''script_mmpbsa.sh'']))
         \<and> fs w' (mm_pluginDir B @ [''script_mmpbsa.sh'']) = None"
  using assms by (simp add: mm_pbsa_run_script_def Let_def mm_set_outputs_def new_events_def)

theorem mm_pbsa_skips_missing_script_witness:
  "returncode (popen silent_env (mm_setup_cmd mm_block) (mm_pluginDir mm_block) (fs ex_world)) = 0
   \<and> fs_after (popen silent_env (mm_setup_cmd mm_block) (mm_pluginDir mm_block) (fs ex_world))
        (mm_pluginDir mm_block @ [''script_mmpbsa.sh'']) = None
   \<and> run_now mm_block
   \<and> succeeded (mm_pbsa_run_script silent_env mm_block ex_world)
   \<and> length (filter is_spawn (new_events ex_world
        (world_of (mm_pbsa_run_script silent_env mm_block ex_world)))) = 1
   \<and> outputs (world_of (mm_pbsa_run_script silent_env mm_block ex_world)) ''submission_script''
        = Some ''/plugin/script_mmpbsa.sh''"
proof -
  have 1: "returncode (popen silent_env (mm_setup_cmd mm_block) (mm_pluginDir mm_block)
      (fs ex_world)) = 0"
    by (simp add: silent_env_def)
  have 2: "fs_after (popen silent_env (mm_setup_cmd mm_block) (mm_pluginDir mm_block) (fs ex_world))
        (mm_pluginDir mm_block @ [''script_mmpbsa.sh'']) = None"
    by (simp add: silent_env_def mm_block_def ex_world_def ex_fs_def)
  have 3: "run_now mm_block" by (simp add: mm_block_def)
  have 4: "path_str (mm_pluginDir mm_block @ [''script_mmpbsa.sh'']) = ''/plugin/script_mmpbsa.sh''"
    by (simp add: mm_block_def path_str_def)
  from mm_pbsa_skips_missing_script [OF 1 2] 1 2 3 4 show ?thesis by auto
qed

end
